theory Spec2Isabelle
  imports Complex_Main "HOL-Library.Word" "HOL-Library.Multiset" "HOL-Library.Log_Nat"
begin

section \<open>FPClock: front-panel clock daemon (fpclock.c)\<close>

text \<open>
  A shallow embedding of \<^verbatim>\<open>src/fpclock.c\<close>.  C's \<^verbatim>\<open>int\<close> and
  \<^verbatim>\<open>unsigned int\<close> are 32-bit words; signed arithmetic wraps around (two's
  complement), which is what the compilers of the target boxes emit for the additions and
  subtractions of the program.  \<^verbatim>\<open>time_t\<close> is a 64-bit word; every use the program makes
  of a \<^verbatim>\<open>time_t\<close> goes through a cast to a 32-bit type, and truncation commutes with
  addition, so a 32-bit \<^verbatim>\<open>time_t\<close> gives the same results.  A finite \<^verbatim>\<open>double\<close> is
  the rational number it stands for.  The conversion of a decimal text to \<^verbatim>\<open>double\<close>
  and the multiplication in \<^verbatim>\<open>get_drift_seconds\<close> round to the nearest
  \<^verbatim>\<open>double\<close>, ties to even, as IEEE 754 arithmetic in \<^verbatim>\<open>double\<close> precision does;
  \<^verbatim>\<open>calc_drift\<close> keeps the
  exact quotient, of which the \<^verbatim>\<open>double\<close> returned is the nearest.  Infinities and
  NaN are outside the model.
\<close>

type_synonym c_int = "32 word"
type_synonym c_uint = "32 word"
type_synonym time_t = "64 word"

subsection \<open>Globals\<close>

text \<open>
  The globals the modelled functions read or write: \<^verbatim>\<open>static int verbose\<close>,
  \<^verbatim>\<open>static int delay\<close>, \<^verbatim>\<open>static int drift_data[10]\<close> and
  \<^verbatim>\<open>static int drift_index\<close>.  The index only ever takes the values 0 to 9, so it
  is a natural number.
\<close>

record globals =
  verbose :: c_int
  delay :: c_int
  drift_data :: "c_int list"
  drift_index :: nat

definition proc_file :: string where "proc_file = ''/proc/stb/fp/rtc''"
definition dev_file :: string where "dev_file = ''/dev/dbox/fp0''"
definition drift_file :: string where "drift_file = ''/etc/fpclock.drift''"

definition EINVAL :: c_int where "EINVAL = 22"

subsection \<open>The outside world\<close>

text \<open>
  What the operating system answers during one call of a modelled function.
  A file that is read is \<open>Absent\<close> when it cannot be opened, else \<open>Opened r\<close>
  where \<open>r\<close> is what is read from it, \<open>None\<close> when the read fails.
  \<^item> \<open>proc_r\<close>: \<^verbatim>\<open>fopen(proc_file, "r")\<close> followed by \<^verbatim>\<open>fscanf("%u")\<close>, which
    fails when it does not return 1.
  \<^item> \<open>dev_r\<close>: \<^verbatim>\<open>open(dev_file)\<close> followed by \<^verbatim>\<open>ioctl(FP_IOCTL_GET_RTC)\<close>,
    which fails when it returns a negative value (the buffer is then left as it was) and else
    stores the value in the buffer.
  \<^item> \<open>proc_w\<close>: \<^verbatim>\<open>fopen(proc_file, "w")\<close>: \<open>None\<close> when it fails, else the value
    \<^verbatim>\<open>fprintf\<close> returns.
  \<^item> \<open>dev_w\<close>: \<^verbatim>\<open>open(dev_file)\<close> for writing: \<open>None\<close> when it fails, else whether
    \<^verbatim>\<open>ioctl(FP_IOCTL_SET_RTC)\<close> succeeds.
  \<^item> \<open>drift_f\<close>: \<^verbatim>\<open>fopen(drift_file, "r")\<close> followed by \<^verbatim>\<open>fscanf("%d:%lf")\<close>,
    which fails when it does not return 2; else the two fields read, the second as the number
    its text denotes (\<^verbatim>\<open>fscanf\<close> stores the nearest \<^verbatim>\<open>double\<close>).
  \<^item> \<open>now\<close>, \<open>now_usec\<close>: the system clock, as \<^verbatim>\<open>time(0)\<close> and
    \<^verbatim>\<open>gettimeofday\<close> report it.
  \<^item> \<open>tdelta_usec\<close>: the value of the field \<^verbatim>\<open>tv_usec\<close> of \<^verbatim>\<open>tdelta\<close>, which
    \<^verbatim>\<open>sync_fp\<close> passes to \<^verbatim>\<open>adjtime\<close> without having assigned it.
  \<^item> \<open>adjtime_rc\<close>, \<open>adjtime_errno\<close>: what \<^verbatim>\<open>adjtime\<close> returns and the
    \<^verbatim>\<open>errno\<close> it leaves.
  \<^item> \<open>d2i_invalid\<close>: the value the platform's conversion from \<^verbatim>\<open>double\<close> to
    \<^verbatim>\<open>int\<close> yields for an operand outside the range of \<^verbatim>\<open>int\<close> (C leaves it
    undefined; the sample worlds below take the least \<^verbatim>\<open>int\<close>, as x86 gives).
\<close>

datatype 'a file_read = Absent | Opened "'a option"

record env =
  proc_r :: "c_uint file_read"
  dev_r :: "time_t file_read"
  proc_w :: "c_int option"
  dev_w :: "bool option"
  drift_f :: "(c_int \<times> rat) file_read"
  now :: time_t
  now_usec :: time_t
  tdelta_usec :: time_t
  adjtime_rc :: c_int
  adjtime_errno :: c_int
  d2i_invalid :: c_int

subsection \<open>Events\<close>

text \<open>
  The effects of a call, in program order: the messages given to \<^verbatim>\<open>LOG\<close> (with its
  \<^verbatim>\<open>print\<close> flag), the accesses to the front-panel clock and the calls that change the
  system clock.  A message is its format with its arguments.
\<close>

datatype log_msg =
    ReadFailed string
  | NotExists string
  | FileNotExists string
  | IoctlGetFailed
  | IoctlSetFailed
  | WriteFailed string
  | DriftInfo rat c_int c_int c_int
  | SetTime time_t
  | DriftValue c_int "c_int list"
  | WriteEpoch c_int
  | WriteErrorTooLow c_int
  | Slewing c_int
  | SlewingFailed c_int c_int
  | SyncFailedRtcZero
  | StartLoop

datatype event =
    Log bool log_msg
  | ProcRead
  | IoctlGet
  | ProcWrite c_uint
  | IoctlSet time_t
  | Adjtime time_t time_t
  | Settimeofday time_t time_t

fun is_clock_call :: "event \<Rightarrow> bool" where
  "is_clock_call (Adjtime d u) = True"
| "is_clock_call (Settimeofday s u) = True"
| "is_clock_call _ = False"

fun is_rtc_write :: "event \<Rightarrow> bool" where
  "is_rtc_write (ProcWrite v) = True"
| "is_rtc_write (IoctlSet v) = True"
| "is_rtc_write _ = False"

fun is_rtc_read :: "event \<Rightarrow> bool" where
  "is_rtc_read ProcRead = True"
| "is_rtc_read IoctlGet = True"
| "is_rtc_read _ = False"

definition clock_calls :: "event list \<Rightarrow> event list" where
  "clock_calls evs = filter is_clock_call evs"

definition rtc_writes :: "event list \<Rightarrow> event list" where
  "rtc_writes evs = filter is_rtc_write evs"

definition rtc_reads :: "event list \<Rightarrow> event list" where
  "rtc_reads evs = filter is_rtc_read evs"

subsection \<open>Drift functions\<close>

text \<open>
  \<^verbatim>\<open>add_drift\<close> (lines 108-117): a non-zero value is stored at the write index, the
  index is incremented and reset to 0 once it exceeds 9.
\<close>

definition add_drift :: "c_int \<Rightarrow> globals \<Rightarrow> globals" where
  "add_drift drift g =
     (if drift \<noteq> 0 then
        (let g1 = g\<lparr>drift_data := (drift_data g)[drift_index g := drift]\<rparr>;
             g2 = g1\<lparr>drift_index := drift_index g1 + 1\<rparr>
         in if drift_index g2 > 9 then g2\<lparr>drift_index := 0\<rparr> else g2)
      else g)"

text \<open>\<^verbatim>\<open>cmpfunc\<close> (line 123): the difference of the two values, in \<^verbatim>\<open>int\<close>.\<close>

definition cmpfunc :: "c_int \<Rightarrow> c_int \<Rightarrow> c_int" where
  "cmpfunc a b = a - b"

text \<open>
  \<^verbatim>\<open>qsort\<close> is the C library's.  For a comparison function that is a total order on the
  elements, every implementation returns the same array of \<^verbatim>\<open>int\<close>s; the model is an
  insertion sort that asks the comparison function and moves an element past those it
  compares greater than.
\<close>

fun qsort_insert :: "('a \<Rightarrow> 'a \<Rightarrow> c_int) \<Rightarrow> 'a \<Rightarrow> 'a list \<Rightarrow> 'a list" where
  "qsort_insert cmp x [] = [x]"
| "qsort_insert cmp x (y # ys) =
     (if 0 <s cmp x y then y # qsort_insert cmp x ys else x # y # ys)"

definition qsort :: "('a \<Rightarrow> 'a \<Rightarrow> c_int) \<Rightarrow> 'a list \<Rightarrow> 'a list" where
  "qsort cmp xs = foldr (qsort_insert cmp) xs []"

text \<open>
  \<^verbatim>\<open>calc_drift\<close> (lines 128-133): the window is sorted in place, the elements at
  positions \<^verbatim>\<open>(9) / 2 = 4\<close> and 5 are added in \<^verbatim>\<open>int\<close>, the sum is converted to
  \<^verbatim>\<open>double\<close> and halved, and the result is divided by \<^verbatim>\<open>delay\<close>.  The quotient by
  a zero \<^verbatim>\<open>delay\<close> is not a finite number: the model returns \<open>None\<close> for it.
\<close>

definition calc_drift :: "globals \<Rightarrow> rat option \<times> globals" where
  "calc_drift g =
     (let g1 = g\<lparr>drift_data := qsort cmpfunc (drift_data g)\<rparr>;
          median = rat_of_int (sint (drift_data g1 ! 4 + drift_data g1 ! 5)) / 2
      in (if delay g1 = 0 then None else Some (median / rat_of_int (sint (delay g1))), g1))"

text \<open>
  Rounding to \<^verbatim>\<open>double\<close> (IEEE 754 binary64, round to nearest, ties to even).
  \<open>pow2 e\<close> is 2 to the power \<open>e\<close>; \<open>ilog2 q\<close> is the exponent of a positive \<open>q\<close>, the
  \<open>e\<close> with \<open>pow2 e \<le> q < pow2 (e + 1)\<close>; \<open>round_even\<close> rounds to the nearest integer,
  a tie to the even one.  A \<^verbatim>\<open>double\<close> has 53 significant bits and its least exponent
  is -1022, so the unit of rounding of \<open>q\<close> is \<open>2\<close> to the power
  \<open>max (ilog2 \<bar>q\<bar>) (- 1022) - 52\<close>.  A magnitude beyond the largest \<^verbatim>\<open>double\<close> is an
  infinity in C; the model keeps a number beyond the range of \<^verbatim>\<open>int\<close>, which the
  conversion to \<^verbatim>\<open>int\<close> treats alike.
\<close>

definition pow2 :: "int \<Rightarrow> rat" where
  "pow2 e = (if 0 \<le> e then 2 ^ nat e else 1 / 2 ^ nat (- e))"

definition ilog2 :: "rat \<Rightarrow> int" where
  "ilog2 q =
     (let (a, b) = quotient_of q;
          n = bitlen a - bitlen b
      in if pow2 n \<le> q then n else n - 1)"

definition round_even :: "rat \<Rightarrow> int" where
  "round_even x =
     (let f = \<lfloor>x\<rfloor>;
          r = x - rat_of_int f
      in if r < 1 / 2 then f
         else if 1 / 2 < r then f + 1
         else if even f then f else f + 1)"

definition round_double :: "rat \<Rightarrow> rat" where
  "round_double q =
     (if q = 0 then 0
      else (let e = max (ilog2 \<bar>q\<bar>) (- 1022);
                u = pow2 (e - 52)
            in rat_of_int (round_even (q / u)) * u))"

text \<open>
  The conversion \<^verbatim>\<open>(int)\<close> of a \<^verbatim>\<open>double\<close> discards the fractional part; the result
  for a value outside the range of \<^verbatim>\<open>int\<close> is the platform's.
\<close>

definition trunc_rat :: "rat \<Rightarrow> int" where
  "trunc_rat q = (if q < 0 then \<lceil>q\<rceil> else \<lfloor>q\<rfloor>)"

definition d2i :: "c_int \<Rightarrow> rat \<Rightarrow> c_int" where
  "d2i invalid q =
     (let t = trunc_rat q
      in if - (2 ^ 31) \<le> t \<and> t < 2 ^ 31 then word_of_int t else invalid)"

text \<open>
  \<^verbatim>\<open>get_drift_seconds\<close> (lines 138-168).  \<^verbatim>\<open>fscanf\<close> stores the rate as a
  \<^verbatim>\<open>double\<close>; the difference \<^verbatim>\<open>rtctime - lastsave\<close> is taken in \<^verbatim>\<open>int\<close>, converted
  to \<^verbatim>\<open>double\<close> (exactly) and multiplied by the rate in \<^verbatim>\<open>double\<close>.
\<close>

definition get_drift_seconds :: "env \<Rightarrow> c_int \<Rightarrow> globals \<Rightarrow> c_int \<times> event list" where
  "get_drift_seconds e rtctime g =
     (case drift_f e of
        Opened scanned \<Rightarrow>
          (let (lastsave, drift, l1) =
                 (case scanned of
                    None \<Rightarrow> (0, 0, [Log False (ReadFailed drift_file)])
                  | Some (ls, d) \<Rightarrow> (ls, round_double d, []))
           in if drift \<noteq> 0 \<and> lastsave \<noteq> 0 then
                (let driftseconds =
                       d2i (d2i_invalid e)
                         (round_double (rat_of_int (sint (rtctime - lastsave)) * drift))
                 in (driftseconds,
                     l1 @ (if verbose g \<noteq> 0
                           then [Log False (DriftInfo drift lastsave (rtctime - lastsave)
                                              driftseconds)]
                           else [])))
              else (0, l1))
      | Absent \<Rightarrow> (0, [Log False (FileNotExists drift_file)]))"

subsection \<open>The front-panel clock\<close>

text \<open>
  \<^verbatim>\<open>getRTC\<close> (lines 173-213), built without \<^verbatim>\<open>HAVE_NO_RTC\<close>: the result starts
  as 0 and is assigned only by a successful read.
\<close>

definition getRTC :: "env \<Rightarrow> globals \<Rightarrow> time_t \<times> event list" where
  "getRTC e g =
     (case proc_r e of
        Opened scanned \<Rightarrow>
          (case scanned of
             None \<Rightarrow> (0, [ProcRead, Log False (ReadFailed proc_file)])
           | Some tmp \<Rightarrow> (ucast tmp, [ProcRead]))
      | Absent \<Rightarrow>
          (let l1 = (if verbose g \<noteq> 0 then [Log False (NotExists proc_file)] else [])
           in case dev_r e of
                Opened got \<Rightarrow>
                  (case got of
                     None \<Rightarrow> (0, l1 @ [IoctlGet, Log False IoctlGetFailed])
                   | Some v \<Rightarrow> (v, l1 @ [IoctlGet]))
              | Absent \<Rightarrow>
                  (0, l1 @ (if verbose g \<noteq> 0 then [Log False (NotExists dev_file)] else []))))"

text \<open>\<^verbatim>\<open>setRTC\<close> (lines 219-260).\<close>

definition setRTC :: "env \<Rightarrow> time_t \<Rightarrow> bool \<Rightarrow> bool \<Rightarrow> globals \<Rightarrow> globals \<times> event list" where
  "setRTC e tm saveDrift logMode g =
     (let l0 = (if verbose g \<noteq> 0 then [Log logMode (SetTime tm)] else []);
          (g1, l1) =
            (if saveDrift then
               (let (old, lr) = getRTC e g;
                    drift = (ucast old :: c_int) - ucast tm
                in if drift \<noteq> 0 then
                     (let g' = add_drift drift g
                      in (g', lr @ (if verbose g' \<noteq> 0
                                    then [Log logMode (DriftValue drift (drift_data g'))]
                                    else [])))
                   else (g, lr))
             else (g, []));
          l2 =
            (case proc_w e of
               Some r \<Rightarrow>
                 ProcWrite (ucast tm) # (if r = 0 then [Log logMode (WriteFailed proc_file)] else [])
             | None \<Rightarrow>
                 (case dev_w e of
                    Some ok \<Rightarrow> IoctlSet tm # (if ok then [] else [Log logMode IoctlSetFailed])
                  | None \<Rightarrow> []))
      in (g1, l0 @ l1 @ l2))"

subsection \<open>Commands\<close>

text \<open>\<^verbatim>\<open>write_fp\<close> (lines 508-527); the result is the returned value, the globals and the events.\<close>

definition write_fp :: "env \<Rightarrow> c_int \<Rightarrow> globals \<Rightarrow> c_int \<times> globals \<times> event list" where
  "write_fp e c g =
     (if c \<noteq> - 1 then
        (let l0 = (if verbose g \<noteq> 0 then [Log True (WriteEpoch c)] else [])
         in if c <s 1672527600 then (1, g, l0 @ [Log True (WriteErrorTooLow c)])
            else (let (g', l) = setRTC e (scast c) False True g in (0, g', l0 @ l)))
      else (let (g', l) = setRTC e (now e) True False g in (0, g', l)))"

text \<open>C's \<^verbatim>\<open>abs\<close> on \<^verbatim>\<open>int\<close>; the negation wraps at the least value.\<close>

definition abs_int :: "c_int \<Rightarrow> c_int" where
  "abs_int x = (if x <s 0 then - x else x)"

text \<open>
  \<^verbatim>\<open>sync_fp\<close> (lines 532-578).  The seconds given to \<^verbatim>\<open>adjtime\<close> and to
  \<^verbatim>\<open>settimeofday\<close> are \<^verbatim>\<open>time_difference\<close>; the microseconds given to
  \<^verbatim>\<open>adjtime\<close> are whatever the unassigned field holds, those given to
  \<^verbatim>\<open>settimeofday\<close> are those \<^verbatim>\<open>gettimeofday\<close> reported.
\<close>

definition sync_fp :: "env \<Rightarrow> bool \<Rightarrow> globals \<Rightarrow> c_int \<times> event list" where
  "sync_fp e cmdline g =
     (let (rtc_time, l0) = getRTC e g;
          system_time = now e
      in if rtc_time \<noteq> 0 then
           (let (rtc_time1, l1) =
                  (if \<not> cmdline then
                     (let (drift, ld) = get_drift_seconds e (ucast rtc_time) g
                      in (rtc_time + scast drift, ld))
                   else (rtc_time, []));
                time_difference = (ucast rtc_time1 :: c_int) - ucast system_time;
                atime_difference = abs_int time_difference
            in if 30 <s atime_difference then
                 (let rc = adjtime_rc e
                  in if rc = - 1 then
                       (if adjtime_errno e = EINVAL then
                          (0, l0 @ l1 @ [Adjtime (scast time_difference) (tdelta_usec e),
                                         Settimeofday (scast time_difference) (now_usec e),
                                         Log cmdline (Slewing time_difference)])
                        else
                          (0, l0 @ l1 @ [Adjtime (scast time_difference) (tdelta_usec e),
                                         Log cmdline (SlewingFailed time_difference
                                                        (adjtime_errno e))]))
                     else
                       (0, l0 @ l1 @ [Adjtime (scast time_difference) (tdelta_usec e),
                                      Log cmdline (Slewing time_difference)]))
               else (0, l0 @ l1))
         else (0, l0 @ [Log cmdline SyncFailedRtcZero]))"

subsection \<open>The daemon\<close>

text \<open>
  \<^verbatim>\<open>main\<close>, lines 721-726: the loop that fills the window with -1, the message
  and the initial synchronisation \<^verbatim>\<open>sync_fp(0)\<close>.  The globals are zero when the process
  starts, apart from \<^verbatim>\<open>delay\<close>; the options and the configuration file set
  \<^verbatim>\<open>verbose\<close> and \<^verbatim>\<open>delay\<close>.
\<close>

function fill_window :: "nat \<Rightarrow> globals \<Rightarrow> globals" where
  "fill_window x g =
     (if x < 10 then fill_window (x + 1) (g\<lparr>drift_data := (drift_data g)[x := - 1]\<rparr>) else g)"
  by pat_completeness auto
termination
  by (relation "measure (\<lambda>(x, g). 10 - x)") auto

declare fill_window.simps [simp del]

definition static_init :: "c_int \<Rightarrow> c_int \<Rightarrow> globals" where
  "static_init v d = \<lparr>verbose = v, delay = d, drift_data = replicate 10 0, drift_index = 0\<rparr>"

definition main_start :: "env \<Rightarrow> globals \<Rightarrow> globals \<times> event list" where
  "main_start e g =
     (let g1 = fill_window 0 g;
          (r, l) = sync_fp e False g1
      in (g1, Log False StartLoop # l))"

text \<open>
  \<^verbatim>\<open>main\<close>, lines 728-732: each turn of the loop calls \<^verbatim>\<open>write_fp(-1)\<close> and
  sleeps.  The list holds the world of each turn; the loop ends when the handler of
  \<^verbatim>\<open>SIGINT\<close> clears \<^verbatim>\<open>running\<close>.
\<close>

fun daemon_loop :: "env list \<Rightarrow> globals \<Rightarrow> globals \<times> event list" where
  "daemon_loop [] g = (g, [])"
| "daemon_loop (e # es) g =
     (let (r, g1, l1) = write_fp e (- 1) g;
          (g2, l2) = daemon_loop es g1
      in (g2, l1 @ l2))"

text \<open>The window as the daemon has it before its first sample, and a run of \<^verbatim>\<open>add_drift\<close> calls.\<close>

definition initial_window :: "c_int \<Rightarrow> c_int \<Rightarrow> globals" where
  "initial_window v d = fill_window 0 (static_init v d)"

definition add_drifts :: "c_int list \<Rightarrow> globals \<Rightarrow> globals" where
  "add_drifts xs g = foldl (\<lambda>g x. add_drift x g) g xs"

subsection \<open>Auxiliary definitions\<close>

text \<open>
  The window after the samples \<open>xs\<close>: read from the write index on, it is the slots never
  written followed by the most recent samples, oldest first.
\<close>

definition window_inv :: "c_int list \<Rightarrow> globals \<Rightarrow> bool" where
  "window_inv xs g \<longleftrightarrow>
     length (drift_data g) = 10 \<and> drift_index g = length xs mod 10 \<and>
     rotate (drift_index g) (drift_data g) =
       replicate (10 - min (length xs) 10) (- 1) @ drop (length xs - 10) xs"

text \<open>Values whose pairwise differences and sums fit in \<^verbatim>\<open>int\<close>.\<close>

definition small :: "c_int \<Rightarrow> bool" where
  "small x \<longleftrightarrow> - (2 ^ 30) \<le> sint x \<and> sint x < 2 ^ 30"

text \<open>A read of the front-panel clock fails: by the pseudo-file, or by both paths.\<close>

definition rtc_read_failed :: "env \<Rightarrow> bool" where
  "rtc_read_failed e \<longleftrightarrow>
     proc_r e = Opened None \<or>
     (proc_r e = Absent \<and> (dev_r e = Absent \<or> dev_r e = Opened None))"

text \<open>Lines 243-259 of \<^verbatim>\<open>setRTC\<close>: the events of the write.\<close>

definition write_events :: "env \<Rightarrow> time_t \<Rightarrow> bool \<Rightarrow> event list" where
  "write_events e tm logMode =
     (case proc_w e of
        Some r \<Rightarrow>
          ProcWrite (ucast tm) # (if r = 0 then [Log logMode (WriteFailed proc_file)] else [])
      | None \<Rightarrow>
          (case dev_w e of
             Some ok \<Rightarrow> IoctlSet tm # (if ok then [] else [Log logMode IoctlSetFailed])
           | None \<Rightarrow> []))"

text \<open>
  Lines 547-570 of \<^verbatim>\<open>sync_fp\<close> as a function of \<^verbatim>\<open>time_difference\<close>: the events
  of the adjustment.
\<close>

definition adjust_events :: "env \<Rightarrow> bool \<Rightarrow> c_int \<Rightarrow> event list" where
  "adjust_events e cmdline delta =
     (if 30 <s abs_int delta then
        (if adjtime_rc e = - 1 then
           (if adjtime_errno e = EINVAL then
              [Adjtime (scast delta) (tdelta_usec e), Settimeofday (scast delta) (now_usec e),
               Log cmdline (Slewing delta)]
            else [Adjtime (scast delta) (tdelta_usec e), Log cmdline (SlewingFailed delta (adjtime_errno e))])
         else [Adjtime (scast delta) (tdelta_usec e), Log cmdline (Slewing delta)])
      else [])"

subsection \<open>Sample inputs\<close>

text \<open>
  A sample world: the front-panel clock reads 1700000100 through the pseudo-file, the system
  clock is 31 seconds behind, there is no drift file and \<^verbatim>\<open>adjtime\<close> accepts.  Sample
  globals: the daemon's defaults with the window filled with -1.
\<close>

definition ex_env :: env where
  "ex_env = \<lparr>proc_r = Opened (Some 1700000100), dev_r = Absent, proc_w = Some 10, dev_w = None,
     drift_f = Absent, now = 1700000069, now_usec = 0, tdelta_usec = 0, adjtime_rc = 0, adjtime_errno = 0,
     d2i_invalid = - 2147483648\<rparr>"

definition ex_globals :: globals where
  "ex_globals = \<lparr>verbose = 0, delay = 1800, drift_data = replicate 10 (- 1), drift_index = 0\<rparr>"

text \<open>
  A sample world with a drift record: the front-panel clock and the system clock agree, and
  the record, saved 1000000 seconds before, gives a rate of 1/10000.
\<close>

definition ex_env_drift :: env where
  "ex_env_drift = \<lparr>proc_r = Opened (Some 1700000000), dev_r = Absent, proc_w = Some 10,
     dev_w = None, drift_f = Opened (Some (1699000000, 1 / 10000)), now = 1700000000, now_usec = 0,
     tdelta_usec = 0, adjtime_rc = 0, adjtime_errno = 0, d2i_invalid = - 2147483648\<rparr>"

text \<open>
  A box whose front-panel clock cannot be read or written, at system time \<open>t\<close>, and ten
  turns of the loop on it, 1800 seconds apart.
\<close>

definition no_rtc_env :: "time_t \<Rightarrow> env" where
  "no_rtc_env t = \<lparr>proc_r = Absent, dev_r = Absent, proc_w = None, dev_w = None,
     drift_f = Absent, now = t, now_usec = 0, tdelta_usec = 0, adjtime_rc = 0, adjtime_errno = 0,
     d2i_invalid = - 2147483648\<rparr>"

definition no_rtc_run :: "env list" where
  "no_rtc_run = map no_rtc_env
     [1700000000, 1700001800, 1700003600, 1700005400, 1700007200,
      1700009000, 1700010800, 1700012600, 1700014400, 1700016200]"

section \<open>Properties\<close>

subsection \<open>The window\<close>

text \<open>
  Claim C9.  Recording the sample 0 changes nothing: for every window state,
  \<^verbatim>\<open>add_drift(0)\<close> leaves all slots of the window and the write index as they were.
\<close>

theorem add_drift_zero_unchanged:
  "add_drift 0 g = g"
  by (simp add: add_drift_def)

lemma fill_window_eq:
  "x \<le> 10 \<Longrightarrow> length (drift_data g) = 10 \<Longrightarrow>
   fill_window x g = g\<lparr>drift_data := take x (drift_data g) @ replicate (10 - x) (- 1)\<rparr>"
proof (induction x g rule: fill_window.induct)
  case (1 x g)
  show ?case
  proof (cases "x < 10")
    case True
    let ?g = "g\<lparr>drift_data := (drift_data g)[x := - 1]\<rparr>"
    have "fill_window x g = fill_window (x + 1) ?g"
      using True by (subst fill_window.simps) simp
    also have "\<dots> = ?g\<lparr>drift_data := take (x + 1) (drift_data ?g) @ replicate (10 - (x + 1)) (- 1)\<rparr>"
      using True "1.prems" by (intro "1.IH") simp_all
    also have "take (x + 1) (drift_data ?g) = take x (drift_data g) @ [- 1]"
      using True "1.prems" by (simp add: take_Suc_conv_app_nth)
    also have "(take x (drift_data g) @ [- 1]) @ replicate (10 - (x + 1)) (- 1)
                = take x (drift_data g) @ replicate (10 - x) (- 1)"
      using True by (simp add: Suc_diff_Suc flip: replicate_Suc)
    finally show ?thesis by simp
  next
    case False
    with "1.prems" have "x = 10" by simp
    then show ?thesis using "1.prems" by (subst fill_window.simps) simp
  qed
qed

lemma initial_window_eq:
  "initial_window v d = \<lparr>verbose = v, delay = d, drift_data = replicate 10 (- 1), drift_index = 0\<rparr>"
  by (simp add: initial_window_def static_init_def fill_window_eq)

lemma rotate_update_step:
  assumes "i < length d"
  shows "rotate (Suc i) (d[i := x]) = tl (rotate i d) @ [x]"
proof -
  have 1: "rotate i d = drop i d @ take i d" using assms by (simp add: rotate_drop_take)
  have 3: "take (Suc i) (d[i := x]) = take i d @ [x]"
    using assms by (simp add: take_Suc_conv_app_nth)
  have 4: "drop i d \<noteq> []" using assms by simp
  have 5: "tl (rotate i d) @ [x] = drop (Suc i) d @ take i d @ [x]"
    using 1 4 by (simp add: drop_Suc tl_drop)
  have 2: "rotate (Suc i) (d[i := x]) = drop (Suc i) (d[i := x]) @ take (Suc i) (d[i := x])"
  proof (cases "Suc i < length d")
    case True
    then show ?thesis by (simp add: rotate_drop_take del: rotate_Suc)
  next
    case False
    then have "Suc i = length d" using assms by simp
    then show ?thesis by (simp add: rotate_drop_take del: rotate_Suc)
  qed
  show ?thesis using 2 3 5 by simp
qed

lemma add_drifts_snoc: "add_drifts (xs @ [x]) g = add_drift x (add_drifts xs g)"
  by (simp add: add_drifts_def)

lemma add_drift_nonzero:
  "x \<noteq> 0 \<Longrightarrow> add_drift x g =
     g\<lparr>drift_data := (drift_data g)[drift_index g := x],
       drift_index := (if drift_index g + 1 > 9 then 0 else drift_index g + 1)\<rparr>"
  by (simp add: add_drift_def Let_def)

lemma window_inv_init: "window_inv [] (initial_window v d)"
  by (simp add: window_inv_def initial_window_eq)

lemma window_inv_step:
  assumes inv: "window_inv xs g" and nz: "x \<noteq> 0"
  shows "window_inv (xs @ [x]) (add_drift x g)"
proof -
  let ?n = "length xs"
  let ?d = "drift_data g"
  let ?g = "add_drift x g"
  from inv have len: "length ?d = 10" and idx: "drift_index g = ?n mod 10"
    and rot: "rotate (?n mod 10) ?d = replicate (10 - min ?n 10) (- 1) @ drop (?n - 10) xs"
    by (auto simp: window_inv_def)
  have idx_lt: "?n mod 10 < length ?d" using len by simp
  have idx': "(if ?n mod 10 + 1 > 9 then 0 else ?n mod 10 + 1) = Suc ?n mod 10"
  proof -
    have "?n mod 10 < 10" by simp
    then show ?thesis by (simp add: mod_Suc) arith
  qed
  have "?g = g\<lparr>drift_data := ?d[?n mod 10 := x], drift_index := Suc ?n mod 10\<rparr>"
    using add_drift_nonzero [OF nz, of g] unfolding idx idx' .
  then have data: "drift_data ?g = ?d[?n mod 10 := x]" and index: "drift_index ?g = Suc ?n mod 10"
    by simp_all
  have "rotate (Suc ?n mod 10) (?d[?n mod 10 := x]) = rotate (Suc (?n mod 10)) (?d[?n mod 10 := x])"
    using len by (subst (2) rotate_conv_mod) (simp add: mod_Suc del: rotate_Suc)
  also have "\<dots> = tl (rotate (?n mod 10) ?d) @ [x]"
    by (rule rotate_update_step [OF idx_lt])
  also have "\<dots> = replicate (10 - min (Suc ?n) 10) (- 1) @ drop (Suc ?n - 10) (xs @ [x])"
  proof (cases "?n < 10")
    case True
    then have "replicate (10 - ?n) (- 1 :: c_int) = (- 1) # replicate (10 - Suc ?n) (- 1)"
      by (simp add: Suc_diff_Suc flip: replicate_Suc)
    with True rot have "rotate (?n mod 10) ?d = (- 1) # replicate (10 - Suc ?n) (- 1) @ xs"
      by simp
    then have "tl (rotate (?n mod 10) ?d) = replicate (10 - Suc ?n) (- 1) @ xs"
      by simp
    then show ?thesis using True by simp
  next
    case False
    then have ge10: "10 \<le> ?n" by simp
    have "tl (drop (?n - 10) xs) = drop (Suc ?n - 10) xs"
      by (subst Suc_diff_le [OF ge10]) (simp add: drop_Suc tl_drop)
    moreover have "drop (?n - 10) xs \<noteq> []" using ge10 by simp
    ultimately have "tl (rotate (?n mod 10) ?d) = drop (Suc ?n - 10) xs"
      using ge10 rot by simp
    then show ?thesis using ge10 by simp
  qed
  finally show ?thesis
    unfolding window_inv_def using data index len by simp
qed

lemma window_inv_add_drifts:
  "0 \<notin> set xs \<Longrightarrow> window_inv xs (add_drifts xs (initial_window v d))"
proof (induction xs rule: rev_induct)
  case Nil
  show ?case by (simp add: add_drifts_def window_inv_init)
next
  case (snoc x xs)
  then show ?case by (simp add: add_drifts_snoc window_inv_step)
qed

lemma window_after_samples:
  fixes xs :: "c_int list" and v d y :: c_int
  assumes nz: "\<forall>x \<in> set xs. x \<noteq> 0"
  defines "g \<equiv> add_drifts xs (initial_window v d)"
  defines "n \<equiv> length xs"
  shows "length (drift_data g) = 10"
    and "drift_index g = n mod 10"
    and "rotate (drift_index g) (drift_data g) =
           replicate (10 - min n 10) (- 1) @ drop (n - 10) xs"
    and "length (drop (n - 10) xs) = min n 10"
    and "n \<le> 10 \<longrightarrow> drift_data g = xs @ replicate (10 - n) (- 1)"
    and "10 \<le> n \<longrightarrow> drift_data g ! drift_index g = xs ! (n - 10)"
    and "y \<noteq> 0 \<longrightarrow> drift_data (add_drift y g) = (drift_data g)[drift_index g := y]
           \<and> drift_index (add_drift y g) = (n + 1) mod 10"
proof -
  from nz have "0 \<notin> set xs" by blast
  then have inv: "window_inv xs g"
    unfolding g_def by (rule window_inv_add_drifts)
  then show len: "length (drift_data g) = 10" and idx: "drift_index g = n mod 10"
    and rot: "rotate (drift_index g) (drift_data g) =
           replicate (10 - min n 10) (- 1) @ drop (n - 10) xs"
    by (auto simp: window_inv_def n_def)
  show "length (drop (n - 10) xs) = min n 10" by (simp add: n_def)
  show "n \<le> 10 \<longrightarrow> drift_data g = xs @ replicate (10 - n) (- 1)"
  proof
    assume le: "n \<le> 10"
    show "drift_data g = xs @ replicate (10 - n) (- 1)"
    proof (cases "n = 10")
      case True
      then show ?thesis using rot idx by (simp add: n_def)
    next
      case False
      with le have lt: "n < 10" by simp
      let ?r = "replicate (10 - n) (- 1) :: c_int list"
      have "rotate n (drift_data g) = ?r @ xs" using rot idx lt by (simp add: n_def)
      moreover have "rotate (length ?r) (?r @ xs) = xs @ ?r" by (rule rotate_append)
      ultimately have "rotate (10 - n) (rotate n (drift_data g)) = xs @ ?r" by simp
      then show ?thesis using lt len by (simp add: rotate_rotate)
    qed
  qed
  show "10 \<le> n \<longrightarrow> drift_data g ! drift_index g = xs ! (n - 10)"
  proof
    assume ge: "10 \<le> n"
    have ne: "drift_data g \<noteq> []" using len by auto
    have "hd (rotate (drift_index g) (drift_data g)) = drift_data g ! drift_index g"
      using hd_rotate_conv_nth [OF ne, of "drift_index g"] idx len by simp
    moreover have "hd (drop (n - 10) xs) = xs ! (n - 10)"
      using ge by (simp add: hd_drop_conv_nth n_def)
    ultimately show "drift_data g ! drift_index g = xs ! (n - 10)"
      using rot ge by simp
  qed
  show "y \<noteq> 0 \<longrightarrow> drift_data (add_drift y g) = (drift_data g)[drift_index g := y]
           \<and> drift_index (add_drift y g) = (n + 1) mod 10"
  proof
    assume y: "y \<noteq> 0"
    have "window_inv (xs @ [y]) (add_drift y g)" using inv y by (rule window_inv_step)
    then have "drift_index (add_drift y g) = (n + 1) mod 10" by (simp add: window_inv_def n_def)
    then show "drift_data (add_drift y g) = (drift_data g)[drift_index g := y]
           \<and> drift_index (add_drift y g) = (n + 1) mod 10"
      using add_drift_nonzero [OF y, of g] by simp
  qed
qed

text \<open>
  Claim C4.  After any sequence of \<open>n\<close> non-zero samples given to \<^verbatim>\<open>add_drift\<close>,
  starting from the window the daemon fills with -1, the window still has its 10 slots and the
  write index is \<open>n mod 10\<close>.  Read circularly from the write index, the window is the
  \<open>10 - min n 10\<close> slots never written followed by the \<open>min n 10\<close> most recent
  samples, oldest first: it holds exactly \<open>min n 10\<close> recorded entries.  Up to 10 samples
  fill the slots from position 0 on.  From 10 samples on, the slot at the write index holds the
  oldest retained sample, and the next sample overwrites exactly that slot and advances the
  index modulo 10.
\<close>

theorem add_drift_window_fifo:
  fixes xs :: "c_int list" and v d y :: c_int
  assumes "\<forall>x \<in> set xs. x \<noteq> 0"
  shows "(let g = add_drifts xs (initial_window v d); n = length xs
          in length (drift_data g) = 10 \<and>
             drift_index g = n mod 10 \<and>
             rotate (drift_index g) (drift_data g) =
               replicate (10 - min n 10) (- 1) @ drop (n - 10) xs \<and>
             length (drop (n - 10) xs) = min n 10 \<and>
             (n \<le> 10 \<longrightarrow> drift_data g = xs @ replicate (10 - n) (- 1)) \<and>
             (10 \<le> n \<longrightarrow> drift_data g ! drift_index g = xs ! (n - 10)) \<and>
             (y \<noteq> 0 \<longrightarrow> drift_data (add_drift y g) = (drift_data g)[drift_index g := y]
                \<and> drift_index (add_drift y g) = (n + 1) mod 10))"
  unfolding Let_def
  by (intro conjI window_after_samples [OF assms])

theorem add_drift_window_fifo_witness:
  "0 \<notin> set [5, - 3, 8, 1, 9, - 2, 4, 7, 6, 3, 11, 12 :: c_int] \<and>
   (let g = add_drifts [5, - 3, 8, 1, 9, - 2, 4, 7, 6, 3, 11, 12] (initial_window 0 1800)
    in drift_index g = 2 \<and>
       rotate 2 (drift_data g) = [8, 1, 9, - 2, 4, 7, 6, 3, 11, 12] \<and>
       drift_data g ! 2 = 8 \<and>
       drift_data (add_drift 13 g) = (drift_data g)[2 := 13])"
  using add_drift_window_fifo
    [where xs = "[5, - 3, 8, 1, 9, - 2, 4, 7, 6, 3, 11, 12]" and v = 0 and d = 1800 and y = 13]
  by (clarsimp simp: Let_def)

subsection \<open>Synchronisation\<close>

lemma clock_calls_getRTC: "clock_calls (snd (getRTC e g)) = []"
  by (simp add: getRTC_def clock_calls_def Let_def split: file_read.splits option.splits)

lemma clock_calls_get_drift_seconds: "clock_calls (snd (get_drift_seconds e r g)) = []"
  by (simp add: get_drift_seconds_def clock_calls_def Let_def split: file_read.splits option.splits)

lemma clock_calls_Nil: "clock_calls [] = []"
  by (simp add: clock_calls_def)

lemma clock_calls_append: "clock_calls (xs @ ys) = clock_calls xs @ clock_calls ys"
  by (simp add: clock_calls_def)

lemma sync_fp_nonzero:
  assumes rd: "getRTC e g = (rtc, l0)" and nz: "rtc \<noteq> 0"
    and hw: "hw = (if cmdline then rtc else rtc + scast (fst (get_drift_seconds e (ucast rtc) g)))"
    and delta: "delta = (ucast hw :: c_int) - ucast (now e)"
  shows "sync_fp e cmdline g =
           (0, l0 @ (if cmdline then [] else snd (get_drift_seconds e (ucast rtc) g))
               @ adjust_events e cmdline delta)"
  using nz unfolding sync_fp_def rd hw delta adjust_events_def
  by (simp add: Let_def split_def)

lemma sync_fp_zero:
  assumes "fst (getRTC e g) = 0"
  shows "sync_fp e cmdline g = (0, snd (getRTC e g) @ [Log cmdline SyncFailedRtcZero])"
  using assms unfolding sync_fp_def by (simp add: Let_def split_def)

lemma clock_calls_sync_fp:
  assumes rd: "getRTC e g = (rtc, l0)" and nz: "rtc \<noteq> 0"
    and hw: "hw = (if cmdline then rtc else rtc + scast (fst (get_drift_seconds e (ucast rtc) g)))"
    and delta: "delta = (ucast hw :: c_int) - ucast (now e)"
  shows "clock_calls (snd (sync_fp e cmdline g)) = clock_calls (adjust_events e cmdline delta)"
proof -
  have "clock_calls l0 = []" using clock_calls_getRTC [of e g] rd by simp
  then show ?thesis
    unfolding sync_fp_nonzero [OF rd nz hw delta]
    by (simp add: clock_calls_append clock_calls_get_drift_seconds clock_calls_Nil)
qed

lemma abs_int_small: "- 30 \<le> sint x \<Longrightarrow> sint x \<le> 30 \<Longrightarrow> \<not> 30 <s abs_int x"
  apply (simp add: abs_int_def word_sless_alt sint_word_ariths)
  apply (auto simp: signed_take_bit_int_eq_self)
  done

lemma abs_int_31: "abs_int 31 = 31" and abs_int_m31: "abs_int (- 31) = 31"
  by (simp_all add: abs_int_def word_sless_alt)

text \<open>
  The difference \<^verbatim>\<open>(int)rtc_time - (int)system_time\<close> is the difference of the two
  times whenever that fits in \<^verbatim>\<open>int\<close>.
\<close>

lemma ucast_of_sint: "(ucast (w :: time_t) :: c_int) = word_of_int (sint w)"
proof -
  have "is_down (ucast :: time_t \<Rightarrow> c_int)" by (simp add: is_down)
  then have "(ucast (word_of_int (sint w) :: time_t) :: c_int) = word_of_int (sint w)"
    by (rule ucast_down_wi)
  then show ?thesis by simp
qed

lemma time_difference_exact:
  fixes hw sys :: time_t
  assumes "- (2 ^ 31) \<le> sint hw - sint sys" and "sint hw - sint sys < 2 ^ 31"
  shows "sint ((ucast hw :: c_int) - ucast sys) = sint hw - sint sys"
proof -
  define k where "k = sint hw - sint sys"
  have "(ucast hw :: c_int) - ucast sys = word_of_int k"
    by (simp add: k_def ucast_of_sint)
  moreover have "sint (word_of_int k :: c_int) = k"
    using assms unfolding k_def [symmetric]
    by (simp add: signed_of_int signed_take_bit_int_eq_self)
  ultimately show ?thesis by (simp add: k_def)
qed

text \<open>
  The boundary of the tolerance band.  In \<^verbatim>\<open>sync_fp\<close>, after a non-zero hardware
  reading, let \<open>hw\<close> be the reading (with the drift extrapolation added unless the call comes
  from the command line) and \<open>delta\<close> the difference \<^verbatim>\<open>(int)hw - (int)system_time\<close>.  If
  \<open>delta\<close> is between -30 and 30 the system clock is not touched: neither
  \<^verbatim>\<open>adjtime\<close> nor \<^verbatim>\<open>settimeofday\<close> is called.  If \<open>delta\<close> is 31 or -31,
  \<^verbatim>\<open>adjtime\<close> is called with \<open>delta\<close> as the seconds and the unassigned field as the
  microseconds, and when \<^verbatim>\<open>adjtime\<close> accepts this is the only call on the system clock.
\<close>

lemma sync_fp_boundary_calls:
  assumes rd: "getRTC e g = (rtc, l0)" and nz: "rtc \<noteq> 0"
    and hw: "hw = (if cmdline then rtc else rtc + scast (fst (get_drift_seconds e (ucast rtc) g)))"
    and delta: "delta = (ucast hw :: c_int) - ucast (now e)"
  shows "(- 30 \<le> sint delta \<and> sint delta \<le> 30 \<longrightarrow>
            clock_calls (snd (sync_fp e cmdline g)) = []) \<and>
         (delta = 31 \<longrightarrow>
            (\<exists>rest. clock_calls (snd (sync_fp e cmdline g)) = Adjtime 31 (tdelta_usec e) # rest) \<and>
            (adjtime_rc e \<noteq> - 1 \<longrightarrow>
               clock_calls (snd (sync_fp e cmdline g)) = [Adjtime 31 (tdelta_usec e)] \<and>
               last (snd (sync_fp e cmdline g)) = Log cmdline (Slewing 31))) \<and>
         (delta = - 31 \<longrightarrow>
            (\<exists>rest. clock_calls (snd (sync_fp e cmdline g)) = Adjtime (- 31) (tdelta_usec e) # rest) \<and>
            (adjtime_rc e \<noteq> - 1 \<longrightarrow>
               clock_calls (snd (sync_fp e cmdline g)) = [Adjtime (- 31) (tdelta_usec e)] \<and>
               last (snd (sync_fp e cmdline g)) = Log cmdline (Slewing (- 31))))"
proof (intro conjI impI)
  note cc = clock_calls_sync_fp [OF rd nz hw delta]
  note ev = sync_fp_nonzero [OF rd nz hw delta]
  have gt: "(30 :: c_int) <s 31" by (simp add: word_sless_alt)
  {
    assume "- 30 \<le> sint delta \<and> sint delta \<le> 30"
    then have "\<not> 30 <s abs_int delta" by (simp add: abs_int_small)
    then show "clock_calls (snd (sync_fp e cmdline g)) = []"
      unfolding cc by (simp add: adjust_events_def clock_calls_def)
  }
  {
    assume d: "delta = 31"
    show "\<exists>rest. clock_calls (snd (sync_fp e cmdline g)) = Adjtime 31 (tdelta_usec e) # rest"
      unfolding cc d by (simp add: adjust_events_def clock_calls_def abs_int_31 gt)
    assume ok: "adjtime_rc e \<noteq> - 1"
    show "clock_calls (snd (sync_fp e cmdline g)) = [Adjtime 31 (tdelta_usec e)]"
      unfolding cc d using ok by (simp add: adjust_events_def clock_calls_def abs_int_31 gt)
    show "last (snd (sync_fp e cmdline g)) = Log cmdline (Slewing 31)"
      unfolding ev d using ok by (simp add: adjust_events_def abs_int_31 gt)
  }
  {
    assume d: "delta = - 31"
    show "\<exists>rest. clock_calls (snd (sync_fp e cmdline g)) = Adjtime (- 31) (tdelta_usec e) # rest"
      unfolding cc d by (simp add: adjust_events_def clock_calls_def abs_int_m31 gt)
    assume ok: "adjtime_rc e \<noteq> - 1"
    show "clock_calls (snd (sync_fp e cmdline g)) = [Adjtime (- 31) (tdelta_usec e)]"
      unfolding cc d using ok by (simp add: adjust_events_def clock_calls_def abs_int_m31 gt)
    show "last (snd (sync_fp e cmdline g)) = Log cmdline (Slewing (- 31))"
      unfolding ev d using ok by (simp add: adjust_events_def abs_int_m31 gt)
  }
qed

lemma sync_fp_boundary_calls_examples:
  "clock_calls (snd (sync_fp (ex_env\<lparr>now := 1700000070\<rparr>) True ex_globals)) = [] \<and>
   clock_calls (snd (sync_fp ex_env True ex_globals)) = [Adjtime 31 0] \<and>
   last (snd (sync_fp ex_env True ex_globals)) = Log True (Slewing 31) \<and>
   clock_calls (snd (sync_fp (ex_env\<lparr>now := 1700000131\<rparr>) True ex_globals)) = [Adjtime (- 31) 0] \<and>
   last (snd (sync_fp (ex_env\<lparr>now := 1700000131\<rparr>) True ex_globals)) = Log True (Slewing (- 31))"
proof -
  have rd: "getRTC (ex_env\<lparr>now := n\<rparr>) ex_globals = (1700000100, [ProcRead])" for n
    by (simp add: getRTC_def ex_env_def)
  have nz: "(1700000100 :: time_t) \<noteq> 0" by simp
  have hw: "(1700000100 :: time_t) =
     (if True then 1700000100
      else 1700000100 + scast (fst (get_drift_seconds (ex_env\<lparr>now := n\<rparr>) (ucast (1700000100 :: time_t)) ex_globals)))" for n
    by simp
  have d30: "(30 :: c_int) = ucast (1700000100 :: time_t) - ucast (now (ex_env\<lparr>now := 1700000070\<rparr>))"
    and d31: "(31 :: c_int) = ucast (1700000100 :: time_t) - ucast (now (ex_env\<lparr>now := 1700000069\<rparr>))"
    and dm31: "(- 31 :: c_int) = ucast (1700000100 :: time_t) - ucast (now (ex_env\<lparr>now := 1700000131\<rparr>))"
    by simp_all
  have same: "ex_env\<lparr>now := 1700000069\<rparr> = ex_env" by (simp add: ex_env_def)
  show ?thesis
    using sync_fp_boundary_calls [OF rd nz hw d30]
      sync_fp_boundary_calls [OF rd nz hw d31]
      sync_fp_boundary_calls [OF rd nz hw dm31]
    by (simp add: same ex_env_def)
qed

text \<open>
  Claim C2 fails on the code.  \<^verbatim>\<open>sync_fp\<close> assigns \<^verbatim>\<open>tdelta.tv_sec\<close> only
  (line 550) and passes \<^verbatim>\<open>tdelta\<close> to \<^verbatim>\<open>adjtime\<close> with whatever its field
  \<^verbatim>\<open>tv_usec\<close> holds.  With the front-panel clock 31 seconds ahead of the system clock and
  140721944000000 in that field, the adjustment requested from \<^verbatim>\<open>adjtime\<close> is 31 seconds
  and 140721944000000 microseconds, not a slew of 31 seconds: so it is when \<^verbatim>\<open>adjtime\<close>
  accepts the request, and when it rejects it with \<^verbatim>\<open>EINVAL\<close> the clock is stepped
  instead.
\<close>

theorem sync_fp_slew_unassigned_usec:
  "sync_fp (ex_env\<lparr>tdelta_usec := 140721944000000\<rparr>) True ex_globals =
     (0, [ProcRead, Adjtime 31 140721944000000, Log True (Slewing 31)]) \<and>
   sync_fp (ex_env\<lparr>tdelta_usec := 140721944000000, adjtime_rc := - 1, adjtime_errno := EINVAL\<rparr>)
       True ex_globals =
     (0, [ProcRead, Adjtime 31 140721944000000, Settimeofday 31 0, Log True (Slewing 31)])"
  by (simp add: sync_fp_def getRTC_def ex_env_def ex_globals_def abs_int_def word_sless_alt)

text \<open>
  Claim C1, as stated, fails: when \<^verbatim>\<open>adjtime\<close> rejects the request with an
  \<^verbatim>\<open>errno\<close> other than \<^verbatim>\<open>EINVAL\<close> (here 1, \<^verbatim>\<open>EPERM\<close>), \<^verbatim>\<open>sync_fp\<close> makes
  no step: it logs the failure and leaves the system clock as it is.
\<close>

theorem sync_fp_rejected_slew_counterexample:
  "adjtime_rc (ex_env\<lparr>adjtime_rc := - 1, adjtime_errno := 1\<rparr>) = - 1 \<and>
   sync_fp (ex_env\<lparr>adjtime_rc := - 1, adjtime_errno := 1\<rparr>) True ex_globals =
     (0, [ProcRead, Adjtime 31 0, Log True (SlewingFailed 31 1)])"
  by (simp add: sync_fp_def getRTC_def ex_env_def ex_globals_def abs_int_def word_sless_alt EINVAL_def)

text \<open>
  The step made after \<^verbatim>\<open>EINVAL\<close> gives \<^verbatim>\<open>settimeofday\<close> the difference as its
  seconds (line 558), here 31, where the hardware time is 1700000100.
\<close>

lemma sync_fp_step_sets_difference:
  "sync_fp (ex_env\<lparr>adjtime_rc := - 1, adjtime_errno := EINVAL\<rparr>) True ex_globals =
     (0, [ProcRead, Adjtime 31 0, Settimeofday 31 0, Log True (Slewing 31)])"
  by (simp add: sync_fp_def getRTC_def ex_env_def ex_globals_def abs_int_def word_sless_alt)

text \<open>
  Claim C1, amended.  When \<^verbatim>\<open>adjtime\<close> rejects the requested adjustment (returns -1)
  with \<^verbatim>\<open>errno = EINVAL\<close>, \<^verbatim>\<open>sync_fp\<close> falls back to an immediate step with
  \<^verbatim>\<open>settimeofday\<close> and logs it; when \<^verbatim>\<open>adjtime\<close> rejects with any other
  \<^verbatim>\<open>errno\<close>, no step is made, the failure is logged and \<^verbatim>\<open>adjtime\<close> stays the only
  call on the system clock.
\<close>

theorem sync_fp_rejected_slew:
  assumes rd: "getRTC e g = (rtc, l0)" and nz: "rtc \<noteq> 0"
    and hw: "hw = (if cmdline then rtc else rtc + scast (fst (get_drift_seconds e (ucast rtc) g)))"
    and delta: "delta = (ucast hw :: c_int) - ucast (now e)"
    and big: "30 <s abs_int delta"
    and rej: "adjtime_rc e = - 1"
  shows "(adjtime_errno e = EINVAL \<longrightarrow>
            (\<exists>sec. clock_calls (snd (sync_fp e cmdline g)) =
                     [Adjtime (scast delta) (tdelta_usec e), Settimeofday sec (now_usec e)]) \<and>
            last (snd (sync_fp e cmdline g)) = Log cmdline (Slewing delta)) \<and>
         (adjtime_errno e \<noteq> EINVAL \<longrightarrow>
            clock_calls (snd (sync_fp e cmdline g)) = [Adjtime (scast delta) (tdelta_usec e)] \<and>
            last (snd (sync_fp e cmdline g)) = Log cmdline (SlewingFailed delta (adjtime_errno e)))"
proof -
  have cc: "clock_calls (snd (sync_fp e cmdline g)) =
      (if adjtime_errno e = EINVAL
       then [Adjtime (scast delta) (tdelta_usec e), Settimeofday (scast delta) (now_usec e)]
       else [Adjtime (scast delta) (tdelta_usec e)])"
    unfolding clock_calls_sync_fp [OF rd nz hw delta]
    using big rej by (simp add: adjust_events_def clock_calls_def)
  have ev: "last (snd (sync_fp e cmdline g)) =
      (if adjtime_errno e = EINVAL then Log cmdline (Slewing delta)
       else Log cmdline (SlewingFailed delta (adjtime_errno e)))"
    unfolding sync_fp_nonzero [OF rd nz hw delta]
    using big rej by (simp add: adjust_events_def)
  show ?thesis unfolding cc ev by simp
qed

theorem sync_fp_rejected_slew_witness:
  "(\<exists>sec. clock_calls (snd (sync_fp (ex_env\<lparr>adjtime_rc := - 1, adjtime_errno := 22\<rparr>) True ex_globals))
     = [Adjtime 31 0, Settimeofday sec 0]) \<and>
   clock_calls (snd (sync_fp (ex_env\<lparr>adjtime_rc := - 1, adjtime_errno := 1\<rparr>) True ex_globals))
     = [Adjtime 31 0]"
proof -
  have rd: "getRTC (ex_env\<lparr>adjtime_rc := - 1, adjtime_errno := n\<rparr>) ex_globals = (1700000100, [ProcRead])" for n
    by (simp add: getRTC_def ex_env_def)
  have nz: "(1700000100 :: time_t) \<noteq> 0" by simp
  have hw: "(1700000100 :: time_t) =
     (if True then 1700000100
      else 1700000100 + scast (fst (get_drift_seconds (ex_env\<lparr>adjtime_rc := - 1, adjtime_errno := n\<rparr>) (ucast (1700000100 :: time_t)) ex_globals)))" for n
    by simp
  have d31: "(31 :: c_int) = ucast (1700000100 :: time_t) - ucast (now (ex_env\<lparr>adjtime_rc := - 1, adjtime_errno := n\<rparr>))" for n
    by (simp add: ex_env_def)
  have big: "30 <s abs_int 31" by (simp add: abs_int_def word_sless_alt)
  have rej: "adjtime_rc (ex_env\<lparr>adjtime_rc := - 1, adjtime_errno := n\<rparr>) = - 1" for n by simp
  show ?thesis
    using sync_fp_rejected_slew [OF rd nz hw d31 big rej, of 22]
      sync_fp_rejected_slew [OF rd nz hw d31 big rej, of 1]
    by (simp add: EINVAL_def ex_env_def)
qed

lemma getRTC_failed: "rtc_read_failed e \<Longrightarrow> fst (getRTC e g) = 0"
  by (auto simp: rtc_read_failed_def getRTC_def Let_def)

text \<open>
  Claim C7.  Whenever the read of the front-panel clock in \<^verbatim>\<open>sync_fp\<close> fails or yields
  0, \<^verbatim>\<open>sync_fp\<close> does nothing but log "Sync failed" after the events of the read:
  neither \<^verbatim>\<open>adjtime\<close> nor \<^verbatim>\<open>settimeofday\<close> is called.
\<close>

theorem sync_fp_read_failure:
  assumes "rtc_read_failed e \<or> fst (getRTC e g) = 0"
  shows "sync_fp e cmdline g = (0, snd (getRTC e g) @ [Log cmdline SyncFailedRtcZero]) \<and>
         clock_calls (snd (sync_fp e cmdline g)) = []"
proof -
  from assms have z: "fst (getRTC e g) = 0" using getRTC_failed by blast
  show ?thesis
    unfolding sync_fp_zero [OF z]
    by (simp add: clock_calls_append clock_calls_getRTC) (simp add: clock_calls_def)
qed

theorem sync_fp_read_failure_witness:
  "rtc_read_failed (ex_env\<lparr>proc_r := Opened None\<rparr>) \<and>
   sync_fp (ex_env\<lparr>proc_r := Opened None\<rparr>) False ex_globals =
     (0, [ProcRead, Log False (ReadFailed proc_file), Log False SyncFailedRtcZero]) \<and>
   clock_calls (snd (sync_fp (ex_env\<lparr>proc_r := Opened None\<rparr>) False ex_globals)) = [] \<and>
   fst (getRTC (ex_env\<lparr>proc_r := Opened (Some 0)\<rparr>) ex_globals) = 0 \<and>
   sync_fp (ex_env\<lparr>proc_r := Opened (Some 0)\<rparr>) True ex_globals =
     (0, [ProcRead, Log True SyncFailedRtcZero])"
proof -
  have f: "rtc_read_failed (ex_env\<lparr>proc_r := Opened None\<rparr>)"
    by (simp add: rtc_read_failed_def)
  have z: "fst (getRTC (ex_env\<lparr>proc_r := Opened (Some 0)\<rparr>) ex_globals) = 0"
    by (simp add: getRTC_def)
  show ?thesis
    using f z sync_fp_read_failure [OF disjI1 [OF f], where g = ex_globals and cmdline = False]
      sync_fp_read_failure [OF disjI2 [OF z], where cmdline = True]
    by (simp add: getRTC_def clock_calls_def)
qed

subsection \<open>The initial synchronisation of the daemon\<close>

lemma fill_window_verbose: "verbose (fill_window x g) = verbose g"
  by (induction x g rule: fill_window.induct) (subst fill_window.simps, simp)

lemma getRTC_fill: "getRTC e (fill_window x g) = getRTC e g"
  by (simp add: getRTC_def fill_window_verbose split: file_read.splits option.splits)

lemma get_drift_seconds_fill: "get_drift_seconds e r (fill_window x g) = get_drift_seconds e r g"
  by (simp add: get_drift_seconds_def fill_window_verbose Let_def split_def
      split: file_read.splits option.splits)

text \<open>The rate 1/10000 of the sample record as a \<^verbatim>\<open>double\<close>, and its product by 1000000.\<close>

lemma round_double_ex_env_drift:
  "round_double (1 / 10000) \<noteq> 0"
  "round_double (1000000 * round_double (1 / 10000)) = 100"
  by code_simp+

text \<open>
  Claim C6, as stated, fails.  With the front-panel clock equal to the system clock and a
  drift record that extrapolates to 100 seconds, the initial synchronisation of the daemon
  slews by 100 seconds, where the synchronisation without extrapolation
  (\<^verbatim>\<open>sync_fp(1)\<close>) does nothing.
\<close>

theorem main_start_sync_counterexample:
  "snd (main_start ex_env_drift (static_init 0 1800)) =
     [Log False StartLoop, ProcRead, Adjtime 100 0, Log False (Slewing 100)] \<and>
   snd (sync_fp ex_env_drift True (fill_window 0 (static_init 0 1800))) = [ProcRead]"
  by (simp add: main_start_def sync_fp_def getRTC_def get_drift_seconds_def ex_env_drift_def
      d2i_def trunc_rat_def abs_int_def word_sless_alt Let_def fill_window_verbose static_init_def
      round_double_ex_env_drift)

text \<open>
  Claim C6, amended.  The first synchronisation of the daemon is \<^verbatim>\<open>sync_fp(0)\<close>, which
  applies the extrapolation: after a non-zero hardware reading \<open>rtc\<close>, the persisted drift
  extrapolation \<^verbatim>\<open>get_drift_seconds(rtc)\<close> is added to the reading before it is compared
  with the system clock, and \<^verbatim>\<open>adjtime\<close> is called with that difference exactly when its
  magnitude exceeds 30.
\<close>

theorem main_start_sync_extrapolates:
  assumes rd: "getRTC e g = (rtc, l0)" and nz: "rtc \<noteq> 0"
    and hw: "hw = rtc + scast (fst (get_drift_seconds e (ucast rtc) g))"
    and delta: "delta = (ucast hw :: c_int) - ucast (now e)"
  shows "snd (main_start e g) = Log False StartLoop # snd (sync_fp e False (fill_window 0 g)) \<and>
         (30 <s abs_int delta \<longrightarrow>
            (\<exists>rest. clock_calls (snd (main_start e g)) = Adjtime (scast delta) (tdelta_usec e) # rest)) \<and>
         (\<not> 30 <s abs_int delta \<longrightarrow> clock_calls (snd (main_start e g)) = [])"
proof -
  let ?g = "fill_window 0 g"
  have rd': "getRTC e ?g = (rtc, l0)" using rd by (simp add: getRTC_fill)
  have hw': "hw = (if False then rtc else rtc + scast (fst (get_drift_seconds e (ucast rtc) ?g)))"
    using hw by (simp add: get_drift_seconds_fill)
  have ms: "snd (main_start e g) = Log False StartLoop # snd (sync_fp e False ?g)"
    by (simp add: main_start_def Let_def split_def)
  have cc: "clock_calls (snd (main_start e g)) = clock_calls (adjust_events e False delta)"
    unfolding ms using clock_calls_sync_fp [OF rd' nz hw' delta]
    by (simp add: clock_calls_def)
  show ?thesis
    unfolding cc using ms by (simp add: adjust_events_def clock_calls_def)
qed

theorem main_start_sync_extrapolates_witness:
  "(\<exists>rest. clock_calls (snd (main_start ex_env_drift (static_init 0 1800))) = Adjtime 100 0 # rest) \<and>
   clock_calls (snd (main_start (ex_env_drift\<lparr>drift_f := Absent\<rparr>) (static_init 0 1800))) = []"
proof -
  let ?g = "static_init 0 1800"
  let ?e = "ex_env_drift\<lparr>drift_f := Absent\<rparr>"
  have nz: "(1700000000 :: time_t) \<noteq> 0" by simp
  have rd: "getRTC ex_env_drift ?g = (1700000000, [ProcRead])"
    by (simp add: getRTC_def ex_env_drift_def)
  have hw: "(1700000100 :: time_t) =
      1700000000 + scast (fst (get_drift_seconds ex_env_drift (ucast (1700000000 :: time_t)) ?g))"
    by (simp add: get_drift_seconds_def ex_env_drift_def d2i_def trunc_rat_def Let_def
        round_double_ex_env_drift)
  have delta: "(100 :: c_int) = ucast (1700000100 :: time_t) - ucast (now ex_env_drift)"
    by (simp add: ex_env_drift_def)
  have rd0: "getRTC ?e ?g = (1700000000, [ProcRead])"
    by (simp add: getRTC_def ex_env_drift_def)
  have hw0: "(1700000000 :: time_t) =
      1700000000 + scast (fst (get_drift_seconds ?e (ucast (1700000000 :: time_t)) ?g))"
    by (simp add: get_drift_seconds_def)
  have delta0: "(0 :: c_int) = ucast (1700000000 :: time_t) - ucast (now ?e)"
    by (simp add: ex_env_drift_def)
  show ?thesis
    using main_start_sync_extrapolates [OF rd nz hw delta, THEN conjunct2]
      main_start_sync_extrapolates [OF rd0 nz hw0 delta0, THEN conjunct2]
    by (simp add: abs_int_def word_sless_alt ex_env_drift_def)
qed

subsection \<open>Writing the front-panel clock\<close>

lemma add_drift_0: "add_drift 0 g = g"
  by (simp add: add_drift_def)

lemma verbose_add_drift: "verbose (add_drift d g) = verbose g"
  by (simp add: add_drift_def Let_def)

lemma rtc_writes_getRTC: "rtc_writes (snd (getRTC e g)) = []"
  by (simp add: getRTC_def rtc_writes_def Let_def split: file_read.splits option.splits)

lemma rtc_reads_write_events: "rtc_reads (write_events e tm logMode) = []"
  by (simp add: write_events_def rtc_reads_def split: option.splits)

lemma rtc_writes_write_events:
  "rtc_writes (write_events e tm logMode) =
     (case proc_w e of
        Some r \<Rightarrow> [ProcWrite (ucast tm)]
      | None \<Rightarrow> (case dev_w e of Some ok \<Rightarrow> [IoctlSet tm] | None \<Rightarrow> []))"
  by (simp add: write_events_def rtc_writes_def split: option.splits)

lemma setRTC_save:
  assumes rd: "getRTC e g = (old, lr)"
    and drift: "drift = (ucast old :: c_int) - ucast tm"
  shows "setRTC e tm True logMode g =
          (add_drift drift g,
           (if verbose g \<noteq> 0 then [Log logMode (SetTime tm)] else []) @
           (lr @ (if drift \<noteq> 0 \<and> verbose g \<noteq> 0
                  then [Log logMode (DriftValue drift (drift_data (add_drift drift g)))]
                  else [])) @
           write_events e tm logMode)"
  unfolding setRTC_def rd drift write_events_def
  by (simp add: Let_def verbose_add_drift add_drift_0)

lemma setRTC_nosave:
  "setRTC e tm False logMode g =
     (g, (if verbose g \<noteq> 0 then [Log logMode (SetTime tm)] else []) @ write_events e tm logMode)"
  unfolding setRTC_def write_events_def by (simp add: Let_def)

text \<open>
  Claim C8.  \<^verbatim>\<open>setRTC\<close> called with \<^verbatim>\<open>saveDrift\<close> first reads the front-panel
  clock with \<^verbatim>\<open>getRTC\<close>, takes \<^verbatim>\<open>(int)old - (int)time\<close> as the drift sample and
  gives it to the window (\<^verbatim>\<open>add_drift\<close>, which drops a sample of 0), and only then
  writes \<^verbatim>\<open>time\<close> to the clock: the events of the call are those of the read, between
  optional messages, followed by those of the write; no write comes before the end of the
  read and no read comes with the write, which goes to the pseudo-file or else to the device.
\<close>

theorem setRTC_samples_drift_before_write:
  assumes rd: "getRTC e g = (old, lr)"
    and drift: "drift = (ucast old :: c_int) - ucast tm"
  shows "fst (setRTC e tm True logMode g) = add_drift drift g \<and>
         (\<exists>l0 ld. snd (setRTC e tm True logMode g) = (l0 @ lr @ ld) @ write_events e tm logMode \<and>
            rtc_reads l0 = [] \<and> rtc_writes (l0 @ lr @ ld) = []) \<and>
         rtc_reads (write_events e tm logMode) = [] \<and>
         rtc_writes (write_events e tm logMode) =
           (case proc_w e of
              Some r \<Rightarrow> [ProcWrite (ucast tm)]
            | None \<Rightarrow> (case dev_w e of Some ok \<Rightarrow> [IoctlSet tm] | None \<Rightarrow> []))"
proof -
  let ?l0 = "if verbose g \<noteq> 0 then [Log logMode (SetTime tm)] else []"
  let ?ld = "if drift \<noteq> 0 \<and> verbose g \<noteq> 0
             then [Log logMode (DriftValue drift (drift_data (add_drift drift g)))] else []"
  have w: "rtc_writes lr = []" using rtc_writes_getRTC [of e g] rd by simp
  have "snd (setRTC e tm True logMode g) = (?l0 @ lr @ ?ld) @ write_events e tm logMode"
    by (simp add: setRTC_save [OF rd drift])
  moreover have "rtc_reads ?l0 = []" by (simp add: rtc_reads_def)
  moreover have "rtc_writes (?l0 @ lr @ ?ld) = []" using w by (simp add: rtc_writes_def)
  ultimately have "\<exists>l0 ld. snd (setRTC e tm True logMode g) = (l0 @ lr @ ld) @ write_events e tm logMode \<and>
            rtc_reads l0 = [] \<and> rtc_writes (l0 @ lr @ ld) = []"
    by blast
  then show ?thesis
    by (simp add: setRTC_save [OF rd drift] rtc_reads_write_events rtc_writes_write_events)
qed

theorem setRTC_samples_drift_before_write_witness:
  "fst (setRTC ex_env (now ex_env) True False ex_globals) = add_drift 31 ex_globals \<and>
   (\<exists>l0 ld. snd (setRTC ex_env (now ex_env) True False ex_globals) =
       (l0 @ [ProcRead] @ ld) @ write_events ex_env (now ex_env) False \<and>
       rtc_reads l0 = [] \<and> rtc_writes (l0 @ [ProcRead] @ ld) = []) \<and>
   rtc_writes (write_events ex_env (now ex_env) False) = [ProcWrite 1700000069]"
proof -
  have rd: "getRTC ex_env ex_globals = (1700000100, [ProcRead])"
    by (simp add: getRTC_def ex_env_def)
  have drift: "(31 :: c_int) = ucast (1700000100 :: time_t) - ucast (now ex_env)"
    by (simp add: ex_env_def)
  show ?thesis
    using setRTC_samples_drift_before_write [OF rd drift, of False]
    by (simp add: ex_env_def)
qed

lemma ucast_scast_int: "ucast (scast (c :: c_int) :: time_t) = c"
  by (rule bit_word_eqI) (auto simp: bit_simps)

text \<open>
  Claim C10.  For a forced epoch \<^verbatim>\<open>c\<close> other than -1: when \<^verbatim>\<open>c\<close> is below
  1672527600, \<^verbatim>\<open>write_fp\<close> reports the error, returns 1, leaves the window as it is and
  writes nothing to the front-panel clock; when \<^verbatim>\<open>c\<close> is at least 1672527600,
  \<^verbatim>\<open>write_fp\<close> returns 0 and writes \<^verbatim>\<open>c\<close> to the clock (to the pseudo-file, or else
  to the device when it opens) without reading the clock and without changing the window.
\<close>

theorem write_fp_forced_epoch:
  assumes "c \<noteq> - 1"
  shows "(c <s 1672527600 \<longrightarrow>
            write_fp e c g =
              (1, g, (if verbose g \<noteq> 0 then [Log True (WriteEpoch c)] else []) @
                     [Log True (WriteErrorTooLow c)]) \<and>
            rtc_writes (snd (snd (write_fp e c g))) = []) \<and>
         (\<not> c <s 1672527600 \<longrightarrow>
            fst (write_fp e c g) = 0 \<and>
            fst (snd (write_fp e c g)) = g \<and>
            rtc_reads (snd (snd (write_fp e c g))) = [] \<and>
            rtc_writes (snd (snd (write_fp e c g))) =
              (case proc_w e of
                 Some r \<Rightarrow> [ProcWrite c]
               | None \<Rightarrow> (case dev_w e of Some ok \<Rightarrow> [IoctlSet (scast c)] | None \<Rightarrow> [])))"
proof (intro conjI impI)
  assume low: "c <s 1672527600"
  show "write_fp e c g =
              (1, g, (if verbose g \<noteq> 0 then [Log True (WriteEpoch c)] else []) @
                     [Log True (WriteErrorTooLow c)])"
    using assms low by (simp add: write_fp_def Let_def)
  then show "rtc_writes (snd (snd (write_fp e c g))) = []"
    by (simp add: rtc_writes_def)
next
  assume high: "\<not> c <s 1672527600"
  have w: "write_fp e c g =
      (0, g, (if verbose g \<noteq> 0 then [Log True (WriteEpoch c)] else []) @
             (if verbose g \<noteq> 0 then [Log True (SetTime (scast c))] else []) @
             write_events e (scast c) True)"
    using assms high by (simp add: write_fp_def Let_def setRTC_nosave)
  show "fst (write_fp e c g) = 0" and "fst (snd (write_fp e c g)) = g"
    by (simp_all add: w)
  show "rtc_reads (snd (snd (write_fp e c g))) = []"
    using rtc_reads_write_events [of e "scast c" True] by (simp add: w rtc_reads_def)
  show "rtc_writes (snd (snd (write_fp e c g))) =
              (case proc_w e of
                 Some r \<Rightarrow> [ProcWrite c]
               | None \<Rightarrow> (case dev_w e of Some ok \<Rightarrow> [IoctlSet (scast c)] | None \<Rightarrow> []))"
    using rtc_writes_write_events [of e "scast c" True]
    by (simp add: w rtc_writes_def ucast_scast_int split: option.splits)
qed

theorem write_fp_forced_epoch_witness:
  "(1672527599 :: c_int) \<noteq> - 1 \<and> (1672527599 :: c_int) <s 1672527600 \<and>
   write_fp ex_env 1672527599 ex_globals =
     (1, ex_globals, [Log True (WriteErrorTooLow 1672527599)]) \<and>
   \<not> (1672527600 :: c_int) <s 1672527600 \<and>
   fst (write_fp ex_env 1672527600 ex_globals) = 0 \<and>
   fst (snd (write_fp ex_env 1672527600 ex_globals)) = ex_globals \<and>
   rtc_reads (snd (snd (write_fp ex_env 1672527600 ex_globals))) = [] \<and>
   rtc_writes (snd (snd (write_fp ex_env 1672527600 ex_globals))) = [ProcWrite 1672527600]"
proof -
  have a: "(1672527599 :: c_int) \<noteq> - 1" and b: "(1672527600 :: c_int) \<noteq> - 1" by simp_all
  have lo: "(1672527599 :: c_int) <s 1672527600" and hi: "\<not> (1672527600 :: c_int) <s 1672527600"
    by (simp_all add: word_sless_alt)
  show ?thesis
    using a lo hi write_fp_forced_epoch [OF a, of ex_env ex_globals]
      write_fp_forced_epoch [OF b, of ex_env ex_globals]
    by (simp add: ex_env_def ex_globals_def)
qed

subsection \<open>Extrapolation\<close>

lemma sint_sub_exact:
  "- (2 ^ 31) \<le> sint a - sint b \<Longrightarrow> sint a - sint b < 2 ^ 31 \<Longrightarrow>
   sint (a - b :: c_int) = sint a - sint b"
  by (simp add: sint_word_ariths signed_take_bit_int_eq_self)

lemma sint_add_exact:
  "- (2 ^ 31) \<le> sint a + sint b \<Longrightarrow> sint a + sint b < 2 ^ 31 \<Longrightarrow>
   sint (a + b :: c_int) = sint a + sint b"
  by (simp add: sint_word_ariths signed_take_bit_int_eq_self)


lemma trunc_rat_toward_zero:
  "\<bar>rat_of_int (trunc_rat q)\<bar> \<le> \<bar>q\<bar> \<and> \<bar>q - rat_of_int (trunc_rat q)\<bar> < 1"
  unfolding trunc_rat_def by (auto; linarith)

text \<open>
  The rounding to \<^verbatim>\<open>double\<close>: \<open>ilog2\<close> is the exponent, \<open>round_even\<close> is within
  one half of its argument, and \<open>round_double q\<close> is a multiple of the unit of \<open>q\<close>
  within half a unit of \<open>q\<close>.
\<close>

lemma pow2_powi: "pow2 e = 2 powi e"
  by (simp add: pow2_def power_int_def field_simps)

lemma pow2_pos: "0 < pow2 e"
  by (simp add: pow2_powi)

lemma pow2_nat: "0 \<le> k \<Longrightarrow> rat_of_int (2 ^ nat k) = pow2 k"
  by (simp add: pow2_def)

lemma ilog2_bounds:
  assumes "0 < q"
  shows "pow2 (ilog2 q) \<le> q \<and> q < pow2 (ilog2 q + 1)"
proof -
  obtain a b where ab: "quotient_of q = (a, b)" by (cases "quotient_of q")
  then have b: "0 < b" and q: "q = rat_of_int a / rat_of_int b"
    using quotient_of_denom_pos quotient_of_div by blast+
  have a: "0 < a" using assms b q by (simp add: zero_less_divide_iff)
  define la lb where "la = bitlen a" and "lb = bitlen b"
  have la: "1 \<le> la" and lb: "1 \<le> lb"
    using a b bitlen_eq_zero_iff [of a] bitlen_eq_zero_iff [of b] bitlen_nonneg [of a] bitlen_nonneg [of b]
    by (auto simp: la_def lb_def)
  have "2 ^ nat (la - 1) \<le> a" "a < 2 ^ nat la" "2 ^ nat (lb - 1) \<le> b" "b < 2 ^ nat lb"
    using bitlen_bounds [OF a] bitlen_bounds [OF b] by (simp_all add: la_def lb_def)
  then have A: "pow2 (la - 1) \<le> rat_of_int a" "rat_of_int a < pow2 la"
    and B: "pow2 (lb - 1) \<le> rat_of_int b" "rat_of_int b < pow2 lb"
    using la lb pow2_nat [of "la - 1", symmetric] pow2_nat [of la, symmetric]
      pow2_nat [of "lb - 1", symmetric] pow2_nat [of lb, symmetric]
    by (simp_all only: of_int_le_iff of_int_less_iff)
  have lo: "pow2 (la - lb - 1) < q"
  proof -
    have "pow2 (la - lb - 1) * rat_of_int b < pow2 (la - lb - 1) * pow2 lb"
      using B(2) pow2_pos by simp
    also have "\<dots> = pow2 (la - 1)" by (simp add: pow2_powi flip: power_int_add)
    also have "\<dots> \<le> rat_of_int a" by (rule A(1))
    finally show ?thesis using b by (simp add: q pos_less_divide_eq)
  qed
  have hi: "q < pow2 (la - lb + 1)"
  proof -
    have "rat_of_int a < pow2 la" by (rule A(2))
    also have "\<dots> = pow2 (la - lb + 1) * pow2 (lb - 1)" by (simp add: pow2_powi flip: power_int_add)
    also have "\<dots> \<le> pow2 (la - lb + 1) * rat_of_int b"
      using B(1) pow2_pos [of "la - lb + 1"] by simp
    finally show ?thesis using b by (simp add: q pos_divide_less_eq)
  qed
  have "ilog2 q = (if pow2 (la - lb) \<le> q then la - lb else la - lb - 1)"
    by (simp add: ilog2_def ab la_def lb_def)
  then show ?thesis using lo hi by (auto simp: not_le)
qed

lemma round_even_nearest: "\<bar>rat_of_int (round_even x) - x\<bar> \<le> 1 / 2"
proof -
  have "rat_of_int \<lfloor>x\<rfloor> \<le> x" and "x < rat_of_int \<lfloor>x\<rfloor> + 1" by linarith+
  then show ?thesis unfolding round_even_def Let_def by (auto simp: abs_le_iff)
qed

lemma round_double_error:
  assumes "q \<noteq> 0"
  defines "u \<equiv> pow2 (max (ilog2 \<bar>q\<bar>) (- 1022) - 52)"
  shows "\<bar>round_double q - q\<bar> \<le> u / 2"
    and "\<exists>m. round_double q = rat_of_int m * u"
proof -
  have u: "0 < u" by (simp add: u_def pow2_pos)
  have rd: "round_double q = rat_of_int (round_even (q / u)) * u"
    using assms by (simp add: round_double_def Let_def u_def)
  have "round_double q - q = (rat_of_int (round_even (q / u)) - q / u) * u"
    using u by (simp add: rd left_diff_distrib)
  then have "\<bar>round_double q - q\<bar> = \<bar>rat_of_int (round_even (q / u)) - q / u\<bar> * u"
    using u by (simp add: abs_mult)
  also have "\<dots> \<le> (1 / 2) * u"
    using round_even_nearest [of "q / u"] u by (intro mult_right_mono) simp_all
  finally show "\<bar>round_double q - q\<bar> \<le> u / 2" by simp
  show "\<exists>m. round_double q = rat_of_int m * u" using rd by blast
qed

text \<open>
  The values of the examples below: 1/512 and 125/64 = 1000 * (1/512) are
  \<^verbatim>\<open>double\<close>s; the \<^verbatim>\<open>double\<close> of 0.01 is 5764607523034235 / 2^59 and its product by
  1000 rounds to 10; the \<^verbatim>\<open>double\<close> of 0.000001 is 4722366482869645 / 2^72 and its
  product by 1000000 rounds to 1.
\<close>

lemma round_double_example_products:
  "(576460752303423488 :: rat) = 2 ^ 59"
  "(4722366482869645213696 :: rat) = 2 ^ 72"
  "1000 * (1 / 512) = (125 / 64 :: rat)"
  "1000 * (5764607523034235 / 576460752303423488) = (720575940379279375 / 72057594037927936 :: rat)"
  "1000000 * (4722366482869645 / 4722366482869645213696) =
     (73786976294838203125 / 73786976294838206464 :: rat)"
  by simp_all

lemma round_double_examples:
  "round_double (1 / 512) = 1 / 512"
  "round_double (125 / 64) = 125 / 64"
  "round_double (1 / 100) = 5764607523034235 / 576460752303423488"
  "round_double (720575940379279375 / 72057594037927936) = 10"
  "round_double (1 / 1000000) = 4722366482869645 / 4722366482869645213696"
  "round_double (73786976294838203125 / 73786976294838206464) = 1"
  by code_simp+

lemma trunc_rat_examples:
  "trunc_rat (125 / 64) = 1"
  "trunc_rat 10 = 10"
  "trunc_rat 1 = 1"
  "trunc_rat (73786976294838203125 / 73786976294838206464) = 0"
  by (simp_all add: trunc_rat_def floor_eq_iff)

text \<open>
  The product is rounded to \<^verbatim>\<open>double\<close> before the cast.  For the record
  (1699000000, 0.000001) and the hardware epoch 1700000000, the \<^verbatim>\<open>double\<close> of the rate lies
  below 1/1000000 and its exact product by 1000000 lies below 1; the product in
  \<^verbatim>\<open>double\<close> is 1, and \<^verbatim>\<open>get_drift_seconds\<close> returns 1.
\<close>

lemma get_drift_seconds_product_in_double:
  "fst (get_drift_seconds (ex_env\<lparr>drift_f := Opened (Some (1699000000, 1 / 1000000))\<rparr>)
          1700000000 ex_globals) = 1 \<and>
   trunc_rat (1000000 * round_double (1 / 1000000)) = 0"
  by (simp add: get_drift_seconds_def Let_def d2i_def round_double_examples trunc_rat_examples)

text \<open>
  A product outside the range of \<^verbatim>\<open>int\<close>: the conversion is the platform's, here the
  least \<^verbatim>\<open>int\<close>.
\<close>

lemma get_drift_seconds_out_of_range:
  "fst (get_drift_seconds (ex_env\<lparr>drift_f := Opened (Some (1000, 10000000000))\<rparr>)
          2000 ex_globals) = - 2147483648"
proof -
  have "round_double 10000000000 = 10000000000"
    and "round_double 10000000000000 = 10000000000000"
    by code_simp+
  then show ?thesis
    by (simp add: get_drift_seconds_def Let_def d2i_def trunc_rat_def ex_env_def)
qed




subsection \<open>The drift rate\<close>

text \<open>
  For window values whose differences and sums fit in \<^verbatim>\<open>int\<close>, \<^verbatim>\<open>qsort\<close> with
  \<^verbatim>\<open>cmpfunc\<close> sorts ascending and \<^verbatim>\<open>calc_drift\<close> is the mean of the sorted elements
  4 and 5 divided by \<^verbatim>\<open>delay\<close>; the slots still holding -1 take part.
\<close>

lemma cmpfunc_pos_iff:
  assumes "small a" and "small b"
  shows "0 <s cmpfunc a b \<longleftrightarrow> sint b < sint a"
proof -
  have "sint (a - b) = sint a - sint b"
    using assms by (intro sint_sub_exact) (simp_all add: small_def)
  then show ?thesis by (simp add: cmpfunc_def word_sless_alt)
qed

lemma qsort_insert_insort:
  "small x \<Longrightarrow> \<forall>y \<in> set ys. small y \<Longrightarrow>
   qsort_insert cmpfunc x ys = insort_key sint x ys"
  by (induction ys) (auto simp: cmpfunc_pos_iff)

lemma qsort_sort:
  "\<forall>y \<in> set xs. small y \<Longrightarrow> qsort cmpfunc xs = sort_key sint xs"
proof (induction xs)
  case Nil
  show ?case by (simp add: qsort_def)
next
  case (Cons x xs)
  then have "qsort cmpfunc xs = sort_key sint xs" by simp
  then have "qsort cmpfunc (x # xs) = qsort_insert cmpfunc x (sort_key sint xs)"
    by (simp add: qsort_def)
  also have "\<dots> = insort_key sint x (sort_key sint xs)"
    using Cons.prems by (intro qsort_insert_insort) simp_all
  finally show ?case by (simp add: sort_key_def)
qed

lemma calc_drift_in_range:
  assumes sm: "\<forall>y \<in> set (drift_data g). small y"
    and len: "length (drift_data g) = 10"
    and d: "delay g \<noteq> 0"
  defines "s \<equiv> sort_key sint (drift_data g)"
  shows "calc_drift g =
           (Some ((rat_of_int (sint (s ! 4) + sint (s ! 5)) / 2) / rat_of_int (sint (delay g))),
            g\<lparr>drift_data := s\<rparr>)"
    and "sorted (map sint s)" and "mset s = mset (drift_data g)"
proof -
  have q: "qsort cmpfunc (drift_data g) = s"
    unfolding s_def using sm by (rule qsort_sort)
  have "length s = 10" using len by (simp add: s_def)
  then have "s ! 4 \<in> set s" and "s ! 5 \<in> set s"
    by simp_all
  then have "small (s ! 4)" and "small (s ! 5)"
    using sm by (simp_all add: s_def)
  then have sum: "sint (s ! 4 + s ! 5) = sint (s ! 4) + sint (s ! 5)"
    by (intro sint_add_exact) (simp_all add: small_def)
  have "calc_drift g =
           (Some ((rat_of_int (sint (s ! 4 + s ! 5)) / 2) / rat_of_int (sint (delay g))),
            g\<lparr>drift_data := s\<rparr>)"
    using d by (simp add: calc_drift_def Let_def q)
  then show "calc_drift g =
           (Some ((rat_of_int (sint (s ! 4) + sint (s ! 5)) / 2) / rat_of_int (sint (delay g))),
            g\<lparr>drift_data := s\<rparr>)"
    unfolding sum .
  show "sorted (map sint s)" by (simp add: s_def)
  show "mset s = mset (drift_data g)" by (simp add: s_def)
qed

lemma calc_drift_example:
  "fst (calc_drift (add_drifts [5, - 3, 8, 1, 9, - 2, 4, 7, 6, 3] (initial_window 0 1800))) =
     Some ((9 / 2) / 1800)"
  by code_simp

lemma calc_drift_sentinels:
  "calc_drift (add_drifts [5, - 3, 8] (initial_window 0 1800)) =
     (Some (- 1 / 1800),
      \<lparr>verbose = 0, delay = 1800, drift_data = [- 3, - 1, - 1, - 1, - 1, - 1, - 1, - 1, 5, 8],
       drift_index = 3\<rparr>)"
  by code_simp

lemma write_fp_no_rtc:
  "verbose g = 0 \<Longrightarrow> write_fp (no_rtc_env t) (- 1) g = (0, add_drift (- ucast t) g, [])"
  by (simp add: write_fp_def setRTC_def getRTC_def no_rtc_env_def Let_def add_drift_0
      verbose_add_drift)

lemma qsort_no_rtc_window:
  "qsort cmpfunc [- 1700000000, - 1700001800, - 1700003600, - 1700005400, - 1700007200,
                    - 1700009000, - 1700010800, - 1700012600, - 1700014400, - 1700016200]
   = [- 1700016200, - 1700014400, - 1700012600, - 1700010800, - 1700009000,
                     - 1700007200, - 1700005400, - 1700003600, - 1700001800, - 1700000000]"
  by (simp add: qsort_def cmpfunc_def word_sless_alt)

lemma verbose_add_drifts: "verbose (add_drifts xs g) = verbose g"
  by (induction xs arbitrary: g) (simp_all add: add_drifts_def verbose_add_drift)

lemma delay_add_drift: "delay (add_drift d g) = delay g"
  by (simp add: add_drift_def Let_def)

lemma delay_add_drifts: "delay (add_drifts xs g) = delay g"
  by (induction xs arbitrary: g) (simp_all add: add_drifts_def delay_add_drift)

lemma daemon_loop_no_rtc:
  "verbose g = 0 \<Longrightarrow>
   daemon_loop (map no_rtc_env ts) g = (add_drifts (map (\<lambda>t. - ucast t) ts) g, [])"
  by (induction ts arbitrary: g)
    (simp_all add: add_drifts_def write_fp_no_rtc verbose_add_drift)

lemma no_rtc_window:
  "fst (daemon_loop no_rtc_run (initial_window 0 1800)) =
     \<lparr>verbose = 0, delay = 1800,
      drift_data = [- 1700000000, - 1700001800, - 1700003600, - 1700005400, - 1700007200,
                    - 1700009000, - 1700010800, - 1700012600, - 1700014400, - 1700016200],
      drift_index = 0\<rparr>"
proof -
  let ?xs = "[- 1700000000, - 1700001800, - 1700003600, - 1700005400, - 1700007200,
              - 1700009000, - 1700010800, - 1700012600, - 1700014400, - 1700016200] :: c_int list"
  let ?g = "add_drifts ?xs (initial_window 0 1800)"
  have nz: "\<forall>x \<in> set ?xs. x \<noteq> 0" by simp
  have run: "fst (daemon_loop no_rtc_run (initial_window 0 1800)) = ?g"
    unfolding no_rtc_run_def
    by (subst daemon_loop_no_rtc) (simp_all add: initial_window_eq)
  have "drift_index ?g = 0" and "drift_data ?g = ?xs"
    using window_after_samples(2) [OF nz, of 0 1800] window_after_samples(5) [OF nz, of 0 1800]
    by simp_all
  moreover have "verbose ?g = 0" and "delay ?g = 1800"
    by (simp_all add: verbose_add_drifts delay_add_drifts initial_window_eq)
  ultimately show ?thesis unfolding run by simp
qed

text \<open>
  Claim C3 fails on the code.  Ten turns of the daemon's loop on a box whose front-panel
  clock cannot be read record the samples \<open>- 1700000000 - 1800 k\<close>.  \<^verbatim>\<open>calc_drift\<close>
  sorts them; the sum of the sorted elements 4 and 5 overflows \<^verbatim>\<open>int\<close> and wraps to
  894951096, so the rate returned is \<open>447475548 / 1800\<close>, positive, where the mean of the
  two elements divided by the delay is \<open>- 1700008100 / 1800\<close>.
\<close>

theorem calc_drift_overflow:
  "fst (daemon_loop no_rtc_run (initial_window 0 1800)) =
     \<lparr>verbose = 0, delay = 1800,
      drift_data = [- 1700000000, - 1700001800, - 1700003600, - 1700005400, - 1700007200,
                    - 1700009000, - 1700010800, - 1700012600, - 1700014400, - 1700016200],
      drift_index = 0\<rparr> \<and>
   calc_drift (fst (daemon_loop no_rtc_run (initial_window 0 1800))) =
     (Some (447475548 / 1800),
      \<lparr>verbose = 0, delay = 1800,
       drift_data = [- 1700016200, - 1700014400, - 1700012600, - 1700010800, - 1700009000,
                     - 1700007200, - 1700005400, - 1700003600, - 1700001800, - 1700000000],
       drift_index = 0\<rparr>) \<and>
   (rat_of_int (sint (- 1700009000 :: c_int) + sint (- 1700007200 :: c_int)) / 2) / 1800
     = - 1700008100 / 1800"
  unfolding no_rtc_window
  by (simp add: calc_drift_def qsort_no_rtc_window Let_def)

end
